theory Spec2Isabelle
  imports Complex_Main
begin

section \<open>JavaScript values\<close>

text \<open>
  The documents the client handles (request bodies, service replies, files) are JSON
  values. A property read that finds nothing yields \<open>undefined\<close>, which is
  \<open>None\<close> of type \<open>json option\<close>. An object is the list of its own
  properties in enumeration order; its keys are meant to be distinct.
\<close>

datatype json =
    JNull
  | JBool bool
  | JNum rat
  | JStr string
  | JArr "json list"
  | JObj "(string \<times> json) list"

text \<open>
  Values that can be thrown: the error axios rejects with (its message and, when the
  service answered, the reply's body), the runtime's TypeError and SyntaxError, a file
  system error named by its code, and a plain \<open>new Error(message)\<close>.
\<close>

datatype js_error =
    AxiosError string "json option"
  | TypeError string
  | SyntaxError string
  | SystemError string
  | Error string

fun truthy :: "json option \<Rightarrow> bool" where
  "truthy None = False"
| "truthy (Some JNull) = False"
| "truthy (Some (JBool b)) = b"
| "truthy (Some (JNum x)) = (x \<noteq> 0)"
| "truthy (Some (JStr s)) = (s \<noteq> [])"
| "truthy (Some (JArr xs)) = True"
| "truthy (Some (JObj kvs)) = True"

function string_of_nat :: "nat \<Rightarrow> string" where
  "string_of_nat n =
     (if n < 10 then [''0123456789'' ! n]
      else string_of_nat (n div 10) @ [''0123456789'' ! (n mod 10)])"
  by pat_completeness auto
termination
  by (relation "measure (\<lambda>n. n)") auto

declare string_of_nat.simps [simp del]

text \<open>
  The own enumerable properties of a value: an object's entries, an array's elements
  and a string's characters under their decimal indices, nothing for a number or a
  boolean. Inherited properties and \<open>length\<close> are left out; the program reads
  none of them by name.
\<close>

fun own_props :: "json \<Rightarrow> (string \<times> json) list" where
  "own_props (JObj kvs) = kvs"
| "own_props (JArr xs) = zip (map string_of_nat [0..<length xs]) xs"
| "own_props (JStr s) = zip (map string_of_nat [0..<length s]) (map (\<lambda>c. JStr [c]) s)"
| "own_props v = []"

text \<open>\<open>v[k]\<close> and \<open>v.k\<close>: a TypeError on \<open>null\<close> and \<open>undefined\<close>.\<close>

fun get_prop :: "json option \<Rightarrow> string \<Rightarrow> js_error + json option" where
  "get_prop None k = Inl (TypeError (''Cannot read properties of undefined: '' @ k))"
| "get_prop (Some JNull) k = Inl (TypeError (''Cannot read properties of null: '' @ k))"
| "get_prop (Some v) k = Inr (map_of (own_props v) k)"

text \<open>\<open>v?.k\<close> and \<open>v?.[k]\<close>: \<open>undefined\<close> on \<open>null\<close> and \<open>undefined\<close>.\<close>

fun opt_prop :: "json option \<Rightarrow> string \<Rightarrow> json option" where
  "opt_prop None k = None"
| "opt_prop (Some JNull) k = None"
| "opt_prop (Some v) k = map_of (own_props v) k"

text \<open>\<open>Object.keys(v)\<close>: a TypeError on \<open>null\<close> and \<open>undefined\<close>.\<close>

fun object_keys :: "json option \<Rightarrow> js_error + string list" where
  "object_keys None = Inl (TypeError ''Cannot convert undefined or null to object'')"
| "object_keys (Some JNull) = Inl (TypeError ''Cannot convert undefined or null to object'')"
| "object_keys (Some v) = Inr (map fst (own_props v))"

text \<open>\<open>s.includes(sub)\<close>.\<close>

fun str_includes :: "string \<Rightarrow> string \<Rightarrow> bool" where
  "str_includes [] sub = (sub = [])"
| "str_includes (c # cs) sub = (take (length sub) (c # cs) = sub \<or> str_includes cs sub)"

fun join_with :: "string \<Rightarrow> string list \<Rightarrow> string" where
  "join_with sep [] = []"
| "join_with sep [x] = x"
| "join_with sep (x # y # ys) = x @ sep @ join_with sep (y # ys)"

text \<open>
  The string a value becomes inside a template literal. How a number prints is the
  runtime's business (the parameter \<open>num\<close>); an array joins its elements with
  commas, \<open>null\<close> elements printing as nothing.
\<close>

fun js_string :: "(rat \<Rightarrow> string) \<Rightarrow> json \<Rightarrow> string" where
  "js_string num JNull = ''null''"
| "js_string num (JBool b) = (if b then ''true'' else ''false'')"
| "js_string num (JNum x) = num x"
| "js_string num (JStr s) = s"
| "js_string num (JArr xs) =
     join_with '','' (map (\<lambda>x. if x = JNull then [] else js_string num x) xs)"
| "js_string num (JObj kvs) = ''[object Object]''"

fun template :: "(rat \<Rightarrow> string) \<Rightarrow> json option \<Rightarrow> string" where
  "template num None = ''undefined''"
| "template num (Some v) = js_string num v"

section \<open>The runtime, the remote service and the world\<close>

text \<open>
  What the program calls but does not define is a parameter: \<open>path.join\<close>,
  \<open>JSON.stringify(_, null, 2)\<close>, \<open>JSON.parse\<close>, the printing of numbers, the
  service's answer to a POST (by URL and body) and to the n-th GET (counted from 0 over
  the whole run of the world, by URL), and the error a write to a path meets, if any.
\<close>

record env =
  path_join :: "string \<Rightarrow> string \<Rightarrow> string"
  json_stringify :: "json \<Rightarrow> string"
  json_parse :: "string \<Rightarrow> js_error + json"
  number_to_string :: "rat \<Rightarrow> string"
  post_reply :: "string \<Rightarrow> json \<Rightarrow> js_error + json"
  get_reply :: "nat \<Rightarrow> string \<Rightarrow> js_error + json"
  write_fault :: "string \<Rightarrow> js_error option"

text \<open>
  The effects the program has on the outside, in order: network calls, timer waits
  (milliseconds) and file writes (path and contents).
\<close>

datatype event =
    is_Post: Post string json
  | is_Get: Get string
  | is_Sleep: Sleep nat
  | is_Write: Write string string

datatype console_arg = Txt string | Val "json option"

text \<open>
  The world a call runs in: the regular files by path, the trace of effects so far, and
  the console, one entry per \<open>console.log\<close> or \<open>console.error\<close> call.
\<close>

record world =
  files :: "string \<rightharpoonup> string"
  events :: "event list"
  console :: "console_arg list list"

definition submits :: "world \<Rightarrow> nat" where
  "submits w = length (filter is_Post (events w))"

definition fetches :: "world \<Rightarrow> nat" where
  "fetches w = length (filter is_Get (events w))"



definition console_log :: "console_arg list \<Rightarrow> world \<Rightarrow> world" where
  "console_log args w = w\<lparr>console := console w @ [args]\<rparr>"

definition axios_post :: "env \<Rightarrow> string \<Rightarrow> json \<Rightarrow> world \<Rightarrow> (js_error + json) \<times> world" where
  "axios_post E url body w = (post_reply E url body, w\<lparr>events := events w @ [Post url body]\<rparr>)"

definition axios_get :: "env \<Rightarrow> string \<Rightarrow> world \<Rightarrow> (js_error + json) \<times> world" where
  "axios_get E url w = (get_reply E (fetches w) url, w\<lparr>events := events w @ [Get url]\<rparr>)"

definition sleep :: "nat \<Rightarrow> world \<Rightarrow> world" where
  "sleep ms w = w\<lparr>events := events w @ [Sleep ms]\<rparr>"

definition writeFileSync :: "env \<Rightarrow> string \<Rightarrow> string \<Rightarrow> world \<Rightarrow> (js_error + unit) \<times> world" where
  "writeFileSync E p contents w =
     (case write_fault E p of
        Some e \<Rightarrow> (Inl e, w)
      | None \<Rightarrow> (Inr (), w\<lparr>files := (files w)(p \<mapsto> contents),
                              events := events w @ [Write p contents]\<rparr>))"

definition readFileSync :: "string \<Rightarrow> world \<Rightarrow> js_error + string" where
  "readFileSync p w = (case files w p of None \<Rightarrow> Inl (SystemError ''ENOENT'') | Some d \<Rightarrow> Inr d)"

definition existsSync :: "string \<Rightarrow> world \<Rightarrow> bool" where
  "existsSync p w = (files w p \<noteq> None)"

section \<open>The client\<close>

record client =
  apiKey :: string
  baseUrl :: string
  inputsPath :: string
  outputsPath :: string
  loadsPath :: string
  ratesPath :: string

text \<open>
  The constructor sets the six fields. It also creates the four directories when they
  are missing; the world above holds regular files only, so that step has no image here.
\<close>

definition new_client :: "env \<Rightarrow> string \<Rightarrow> client" where
  "new_client E key =
     \<lparr> apiKey = key,
       baseUrl = ''https://developer.nrel.gov/api/reopt/stable'',
       inputsPath = path_join E ''.'' ''inputs'',
       outputsPath = path_join E ''.'' ''outputs'',
       loadsPath = path_join E ''.'' ''load_profiles'',
       ratesPath = path_join E ''.'' ''electric_rates'' \<rparr>"

definition maxAttempts :: nat where
  "maxAttempts = 120"

definition is_terminal :: "json option \<Rightarrow> bool" where
  "is_terminal st = (st = Some (JStr ''optimal'') \<or> st = Some (JStr ''error''))"

text \<open>
  The polling loop of \<open>getApiResults\<close>, from the attempt counter \<open>attempts\<close> on.
  The bound of the loop is an argument, so that the loop can be studied at any bound;
  \<open>getApiResults\<close> runs it at \<open>maxAttempts\<close>.
\<close>

function poll ::
  "env \<Rightarrow> client \<Rightarrow> nat \<Rightarrow> string \<Rightarrow> string \<Rightarrow> nat \<Rightarrow> world \<Rightarrow> (js_error + json) \<times> world" where
  "poll E c bound resultsUrl outputFileName attempts w =
     (if attempts < bound then
        (case axios_get E resultsUrl w of
           (Inl e, w1) \<Rightarrow> (Inl e, w1)
         | (Inr result, w1) \<Rightarrow>
             (case get_prop (Some result) ''status'' of
                Inl e \<Rightarrow> (Inl e, w1)
              | Inr st \<Rightarrow>
                  if is_terminal st then
                    (let w2 = console_log
                           [Txt (''Job completed with status: '' @ template (number_to_string E) st)] w1;
                         outputPath = path_join E (outputsPath c) (outputFileName @ ''.json'')
                     in case writeFileSync E outputPath (json_stringify E result) w2 of
                          (Inl e, w3) \<Rightarrow> (Inl e, w3)
                        | (Inr u, w3) \<Rightarrow>
                            (Inr result, console_log [Txt (''Saved results to '' @ outputPath)] w3))
                  else
                    poll E c bound resultsUrl outputFileName (attempts + 1)
                      (sleep 5000
                        (console_log
                           [Txt (''Status: '' @ template (number_to_string E) st @ ''... waiting...'')]
                           w1))))
      else (Inl (Error ''API polling timed out''), w))"
  by pat_completeness auto
termination
  by (relation "measure (\<lambda>(E, c, bound, resultsUrl, outputFileName, attempts, w). bound - attempts)") auto

declare poll.simps [simp del]

text \<open>
  What the \<open>catch\<close> block prints for a thrown value: the reply's body when the error
  has one that is truthy, the message otherwise.
\<close>

fun error_report :: "js_error \<Rightarrow> console_arg" where
  "error_report (AxiosError msg data) = (if truthy data then Val data else Txt msg)"
| "error_report (TypeError msg) = Txt msg"
| "error_report (SyntaxError msg) = Txt msg"
| "error_report (SystemError msg) = Txt msg"
| "error_report (Error msg) = Txt msg"

text \<open>
  \<open>getApiResults(postData, outputFileName = 'results_file', runId?)\<close>. The two
  optional parameters are options; the body never reads \<open>runId\<close>. Every throw of the
  body goes through the \<open>catch\<close> block, which prints and throws the same value again.
\<close>

definition getApiResults ::
  "env \<Rightarrow> client \<Rightarrow> json \<Rightarrow> string option \<Rightarrow> string option \<Rightarrow> world \<Rightarrow> (js_error + json) \<times> world" where
  "getApiResults E c postData outputFileNameArg runId w =
     (let outputFileName = (case outputFileNameArg of None \<Rightarrow> ''results_file'' | Some n \<Rightarrow> n);
          submitUrl = baseUrl c @ ''/job/?api_key='' @ apiKey c;
          w0 = console_log [Txt ''Submitting job to REopt API...''] w;
          body =
            (case axios_post E submitUrl postData w0 of
               (Inl e, w1) \<Rightarrow> (Inl e, w1)
             | (Inr jobData, w1) \<Rightarrow>
                 (let w2 = console_log [Txt (''Response OK from '' @ submitUrl)] w1
                  in case get_prop (Some jobData) ''run_uuid'' of
                       Inl e \<Rightarrow> (Inl e, w2)
                     | Inr runUuid \<Rightarrow>
                         (let w3 = console_log
                                [Txt (''Run UUID: '' @ template (number_to_string E) runUuid)] w2;
                              resultsUrl = baseUrl c @ ''/job/'' @ template (number_to_string E) runUuid
                                @ ''/results/?api_key='' @ apiKey c;
                              w4 = console_log
                                [Txt (''Polling '' @ resultsUrl @ '' for results with interval of 5s...'')] w3
                          in poll E c maxAttempts resultsUrl outputFileName 0 w4)))
      in case body of
           (Inl e, w') \<Rightarrow> (Inl e, console_log [Txt ''API error:'', error_report e] w')
         | (Inr result, w') \<Rightarrow> (Inr result, w'))"

text \<open>\<open>getResultsManually\<close>: one GET for a known run, nothing else.\<close>

definition getResultsManually :: "env \<Rightarrow> client \<Rightarrow> string \<Rightarrow> world \<Rightarrow> (js_error + json) \<times> world" where
  "getResultsManually E c runUuid w =
     axios_get E (baseUrl c @ ''/job/'' @ runUuid @ ''/results/?api_key='' @ apiKey c) w"

section \<open>The store\<close>

text \<open>\<open>loadElectricRate\<close>: the parsed file when it exists, \<open>null\<close> otherwise.\<close>

definition loadElectricRate :: "env \<Rightarrow> client \<Rightarrow> string \<Rightarrow> world \<Rightarrow> js_error + json" where
  "loadElectricRate E c rateName w =
     (let ratePath = path_join E (ratesPath c) (rateName @ ''.json'')
      in if existsSync ratePath w then
           (case readFileSync ratePath w of
              Inl e \<Rightarrow> Inl e
            | Inr rateData \<Rightarrow> json_parse E rateData)
         else Inr JNull)"

definition savePostData :: "env \<Rightarrow> client \<Rightarrow> json \<Rightarrow> string \<Rightarrow> world \<Rightarrow> (js_error + unit) \<times> world" where
  "savePostData E c postData fileName w =
     (let filePath = path_join E (inputsPath c) (fileName @ ''.json'')
      in case writeFileSync E filePath (json_stringify E postData) w of
           (Inl e, w1) \<Rightarrow> (Inl e, w1)
         | (Inr u, w1) \<Rightarrow> (Inr (), console_log [Txt (''Saved POST data to '' @ filePath)] w1))"

definition loadPostData :: "env \<Rightarrow> client \<Rightarrow> string \<Rightarrow> world \<Rightarrow> js_error + json" where
  "loadPostData E c fileName w =
     (let filePath = path_join E (inputsPath c) (fileName @ ''.json'')
      in case readFileSync filePath w of
           Inl e \<Rightarrow> Inl e
         | Inr d \<Rightarrow> json_parse E d)"

definition loadApiResponse :: "env \<Rightarrow> client \<Rightarrow> string \<Rightarrow> world \<Rightarrow> js_error + json" where
  "loadApiResponse E c fileName w =
     (let filePath = path_join E (outputsPath c) (fileName @ ''.json'')
      in case readFileSync filePath w of
           Inl e \<Rightarrow> Inl e
         | Inr d \<Rightarrow> json_parse E d)"

definition saveApiResponse :: "env \<Rightarrow> client \<Rightarrow> json \<Rightarrow> string \<Rightarrow> world \<Rightarrow> (js_error + unit) \<times> world" where
  "saveApiResponse E c response fileName w =
     (let filePath = path_join E (outputsPath c) (fileName @ ''.json'')
      in case writeFileSync E filePath (json_stringify E response) w of
           (Inl e, w1) \<Rightarrow> (Inl e, w1)
         | (Inr u, w1) \<Rightarrow> (Inr (), console_log [Txt (''Saved API response to '' @ filePath)] w1))"

section \<open>The summary\<close>

text \<open>
  \<open>printResultsSummary\<close> only reads its argument and prints. Its statements run in
  order in the world; the first throw ends the run, what was printed before stays.
\<close>

type_synonym 'a prog = "world \<Rightarrow> (js_error + 'a) \<times> world"

definition finish :: "unit prog" where
  "finish w = (Inr (), w)"

definition eval_to :: "js_error + 'a \<Rightarrow> 'a prog" where
  "eval_to r w = (r, w)"

definition print_log :: "console_arg list \<Rightarrow> unit prog" where
  "print_log args w = (Inr (), console_log args w)"

definition and_then :: "'a prog \<Rightarrow> ('a \<Rightarrow> 'b prog) \<Rightarrow> 'b prog" where
  "and_then m f w = (case m w of (Inl e, w1) \<Rightarrow> (Inl e, w1) | (Inr x, w1) \<Rightarrow> f x w1)"

primrec for_each :: "'a list \<Rightarrow> ('a \<Rightarrow> unit prog) \<Rightarrow> unit prog" where
  "for_each [] f = finish"
| "for_each (x # xs) f = and_then (f x) (\<lambda>u. for_each xs f)"

text \<open>A chain of property reads, \<open>v.k1.k2\<close>.\<close>

fun get_path :: "json option \<Rightarrow> string list \<Rightarrow> js_error + json option" where
  "get_path v [] = Inr v"
| "get_path v (k # ks) = (case get_prop v k of Inl e \<Rightarrow> Inl e | Inr x \<Rightarrow> get_path x ks)"

text \<open>\<open>v.k1?.k2\<close> and \<open>v.k1?.[k2]\<close>.\<close>

definition get_opt :: "json option \<Rightarrow> string \<Rightarrow> string \<Rightarrow> js_error + json option" where
  "get_opt v k1 k2 = (case get_prop v k1 of Inl e \<Rightarrow> Inl e | Inr x \<Rightarrow> Inr (opt_prop x k2))"

definition techList :: "string list" where
  "techList = [''PV'', ''Wind'', ''ElectricStorage'', ''CHP'', ''Generator'',
     ''HotThermalStorage'', ''ColdThermalStorage'', ''AbsorptionChiller'',
     ''GHP'', ''Boiler'', ''SteamTurbine'']"

definition print_financial :: "env \<Rightarrow> json option \<Rightarrow> unit prog" where
  "print_financial E r =
     and_then (eval_to (get_opt r ''outputs'' ''Financial'')) (\<lambda>fin.
       if truthy fin then
         and_then (eval_to (get_path r [''outputs'', ''Financial'', ''npv''])) (\<lambda>npv.
         and_then (print_log [Txt (''NPV ($): '' @ template (number_to_string E) npv)]) (\<lambda>u.
         and_then (eval_to (get_path r [''outputs'', ''Financial'', ''lifecycle_capital_costs''])) (\<lambda>cost.
         print_log [Txt (''Capital Cost, Net ($): '' @ template (number_to_string E) cost)])))
       else finish)"

definition print_ghp :: "env \<Rightarrow> json option \<Rightarrow> string \<Rightarrow> unit prog" where
  "print_ghp E r tech =
     (if tech = ''GHP'' then
        and_then (eval_to (get_path r [''outputs'', tech, ''ghpghx_chosen_outputs''])) (\<lambda>chosen.
          if truthy chosen then
            and_then (eval_to (get_path r
                [''outputs'', tech, ''ghpghx_chosen_outputs'', ''number_of_boreholes''])) (\<lambda>n.
            and_then (print_log
                [Txt (''GHX Number of Boreholes: '' @ template (number_to_string E) n)]) (\<lambda>u.
            and_then (eval_to (get_path r
                [''outputs'', tech, ''ghpghx_chosen_outputs'',
                 ''peak_combined_heatpump_thermal_ton''])) (\<lambda>ton.
            print_log
                [Txt (''GHP Heat Pump Capacity (ton): '' @ template (number_to_string E) ton)])))
          else finish)
      else finish)"

definition print_sizes :: "env \<Rightarrow> json option \<Rightarrow> string \<Rightarrow> unit prog" where
  "print_sizes E r tech =
     and_then (eval_to (get_path r [''outputs'', tech])) (\<lambda>techOutputs.
     and_then (eval_to (object_keys techOutputs)) (\<lambda>ks.
     for_each ks (\<lambda>key.
       if str_includes key ''size'' then
         and_then (eval_to (get_prop techOutputs key)) (\<lambda>v.
         print_log [Txt (tech @ '' '' @ key @ '': '' @ template (number_to_string E) v)])
       else finish)))"

definition print_tech :: "env \<Rightarrow> json option \<Rightarrow> string \<Rightarrow> unit prog" where
  "print_tech E r tech =
     and_then (eval_to (get_opt r ''outputs'' tech)) (\<lambda>t.
       if truthy t then
         and_then (print_ghp E r tech) (\<lambda>u. print_sizes E r tech)
       else finish)"

definition print_info :: "env \<Rightarrow> json option \<Rightarrow> unit prog" where
  "print_info E r =
     and_then (eval_to (get_path r [''messages'', ''info''])) (\<lambda>info.
       if truthy info then
         and_then (eval_to (get_path r [''messages'', ''info''])) (\<lambda>info'.
         print_log [Txt (CHR 0x0A # ''Info: '' @ template (number_to_string E) info')])
       else finish)"

definition print_listed :: "json option \<Rightarrow> string \<Rightarrow> string \<Rightarrow> unit prog" where
  "print_listed r field label =
     and_then (eval_to (get_path r [''messages'', field])) (\<lambda>v.
     and_then (eval_to (object_keys v)) (\<lambda>ks.
       if length ks > 0 then
         and_then (eval_to (get_path r [''messages'', field])) (\<lambda>v'.
         print_log [Txt label, Val v'])
       else finish))"

definition print_messages :: "env \<Rightarrow> json option \<Rightarrow> unit prog" where
  "print_messages E r =
     and_then (eval_to (get_prop r ''messages'')) (\<lambda>messages.
       if truthy messages then
         and_then (print_info E r) (\<lambda>u.
         and_then (print_listed r ''errors'' ''Errors:'') (\<lambda>u.
         print_listed r ''warnings'' ''Warnings:''))
       else finish)"

definition print_categories :: "json option \<Rightarrow> unit prog" where
  "print_categories r =
     and_then (eval_to (get_prop r ''outputs'')) (\<lambda>outputs.
       if truthy outputs then
         and_then (print_log [Txt (CHR 0x0A # ''Available output categories:'')]) (\<lambda>u.
         and_then (eval_to (get_prop r ''outputs'')) (\<lambda>outputs'.
         and_then (eval_to (object_keys outputs')) (\<lambda>ks.
         for_each ks (\<lambda>key. print_log [Txt (''  '' @ key)]))))
       else finish)"

definition printResultsSummary :: "env \<Rightarrow> json \<Rightarrow> unit prog" where
  "printResultsSummary E apiResponse =
     (let r = Some apiResponse in
      and_then (print_log [Txt (CHR 0x0A # ''=== REopt Results Summary ==='')]) (\<lambda>u.
      and_then (eval_to (get_prop r ''status'')) (\<lambda>status.
      and_then (print_log [Txt (''Status: '' @ template (number_to_string E) status)]) (\<lambda>u.
      and_then (eval_to (get_prop r ''run_uuid'')) (\<lambda>run_uuid.
      and_then (print_log [Txt (''Run UUID: '' @ template (number_to_string E) run_uuid)]) (\<lambda>u.
      and_then (print_financial E r) (\<lambda>u.
      and_then (for_each techList (print_tech E r)) (\<lambda>u.
      and_then (print_messages E r) (\<lambda>u.
      print_categories r)))))))))"

section \<open>Names for the statements\<close>


definition results_url :: "env \<Rightarrow> client \<Rightarrow> json option \<Rightarrow> string" where
  "results_url E c runUuid =
     baseUrl c @ ''/job/'' @ template (number_to_string E) runUuid @ ''/results/?api_key='' @ apiKey c"





section \<open>Sample runs\<close>

text \<open>
  A runtime and a service to run the program on: \<open>path.join\<close> for plain relative
  names, a compact serialiser, a parser that knows the sample request, writes that always
  go through, and a service that gives one fixed answer to the POST and a scripted
  answer to the n-th GET.
\<close>

definition sample_join :: "string \<Rightarrow> string \<Rightarrow> string" where
  "sample_join a b = (if a = ''.'' then b else a @ ''/'' @ b)"

text \<open>Whole numbers from 0 on print in decimal; the sample documents hold no others.\<close>

definition sample_number :: "rat \<Rightarrow> string" where
  "sample_number x = (if x = of_nat (nat \<lfloor>x\<rfloor>) then string_of_nat (nat \<lfloor>x\<rfloor>) else ''NaN'')"

fun sample_stringify :: "json \<Rightarrow> string" where
  "sample_stringify JNull = ''null''"
| "sample_stringify (JBool b) = (if b then ''true'' else ''false'')"
| "sample_stringify (JNum x) = sample_number x"
| "sample_stringify (JStr s) = CHR 0x22 # s @ [CHR 0x22]"
| "sample_stringify (JArr xs) = ''['' @ join_with '','' (map sample_stringify xs) @ '']''"
| "sample_stringify (JObj kvs) =
     ''{'' @ join_with '','' (map (\<lambda>kv. CHR 0x22 # fst kv @ [CHR 0x22] @ '':'' @ sample_stringify (snd kv)) kvs) @ ''}''"

definition sample_request :: json where
  "sample_request = JObj [(''ElectricLoad'', JObj [(''doe_reference_name'', JStr ''RetailStore'')])]"

definition sample_parse :: "string \<Rightarrow> js_error + json" where
  "sample_parse s =
     (if s = sample_stringify sample_request then Inr sample_request
      else Inl (SyntaxError ''Unexpected token''))"

definition sample_env :: "(js_error + json) \<Rightarrow> (nat \<Rightarrow> js_error + json) \<Rightarrow> env" where
  "sample_env posted got =
     \<lparr> path_join = sample_join,
       json_stringify = sample_stringify,
       json_parse = sample_parse,
       number_to_string = sample_number,
       post_reply = (\<lambda>url body. posted),
       get_reply = (\<lambda>n url. got n),
       write_fault = (\<lambda>p. None) \<rparr>"

definition sample_client :: client where
  "sample_client = new_client (sample_env (Inl (Error ''no service'')) (\<lambda>n. Inl (Error ''no service''))) ''KEY''"

definition accepted :: "string \<Rightarrow> js_error + json" where
  "accepted h = Inr (JObj [(''run_uuid'', JStr h)])"

definition with_status :: "string \<Rightarrow> json" where
  "with_status s = JObj [(''status'', JStr s)]"

definition empty_world :: world where
  "empty_world = \<lparr> files = Map.empty, events = [], console = [] \<rparr>"


definition always_running :: "nat \<Rightarrow> js_error + json" where
  "always_running n = Inr (with_status ''Running'')"




text \<open>A finished job's document whose \<open>messages.errors\<close> and \<open>messages.warnings\<close> are \<open>null\<close>.\<close>

definition summary_input :: json where
  "summary_input = JObj
     [(''run_uuid'', JStr ''abc-123''),
      (''status'', JStr ''optimal''),
      (''outputs'', JObj [(''Financial'', JObj [(''npv'', JNum 50000)])]),
      (''messages'', JObj [(''info'', JStr []), (''errors'', JNull), (''warnings'', JNull),
                          (''has_stacktrace'', JBool False)])]"

section \<open>The polling loop\<close>

















section \<open>The run as a whole\<close>












text \<open>\<open>runId\<close> is never read, and \<open>getResultsManually\<close> makes one GET and no POST.\<close>

lemma getApiResults_runId_unread:
  "getApiResults E c postData outArg runId w = getApiResults E c postData outArg None w"
  by (simp add: getApiResults_def)

lemma getResultsManually_events:
  "events (snd (getResultsManually E c runUuid w))
     = events w @ [Get (results_url E c (Some (JStr runUuid)))]"
  by (simp add: getResultsManually_def axios_get_def results_url_def)

section \<open>Submission and resumption\<close>

text \<open>
  Claim C1: a run that is handed a known job handle (\<open>runId\<close>) skips the submission
  and polls with that handle. The code does otherwise. The sample run below is handed
  the handle \<open>abc-123\<close>; the service accepts the (second) submission as job
  \<open>new-456\<close> and reports it finished at the first poll. The run makes one POST,
  polls \<open>new-456\<close> and never names \<open>abc-123\<close>.
\<close>

theorem getApiResults_resume_submits_again:
  "events (snd (getApiResults
      (sample_env (accepted ''new-456'') (\<lambda>n. Inr (with_status ''optimal'')))
      sample_client sample_request None (Some ''abc-123'') empty_world))
     = [Post ''https://developer.nrel.gov/api/reopt/stable/job/?api_key=KEY'' sample_request,
        Get ''https://developer.nrel.gov/api/reopt/stable/job/new-456/results/?api_key=KEY'',
        Write ''outputs/results_file.json'' (sample_stringify (with_status ''optimal''))]
   \<and> submits (snd (getApiResults
      (sample_env (accepted ''new-456'') (\<lambda>n. Inr (with_status ''optimal'')))
      sample_client sample_request None (Some ''abc-123'') empty_world)) = 1"
  by (simp add: getApiResults_def poll.simps sample_env_def accepted_def with_status_def
      sample_client_def new_client_def sample_join_def empty_world_def axios_post_def
      axios_get_def console_log_def writeFileSync_def is_terminal_def maxAttempts_def
      fetches_def submits_def Let_def)

section \<open>The timeout\<close>






section \<open>Counting fetches and sleeps\<close>




section \<open>What a fetched status does to the loop\<close>



section \<open>Errors of the adapter\<close>



section \<open>Persisting the result\<close>




section \<open>Loading and saving\<close>

text \<open>
  Claim C6, as amended: when no file stands at the path a name maps to,
  \<open>loadPostData\<close> and \<open>loadApiResponse\<close> fail with the file system's error
  \<open>ENOENT\<close>, and \<open>loadElectricRate\<close> does not fail: it returns \<open>null\<close>.
\<close>

theorem load_of_missing_file:
  "(files w (path_join E (inputsPath c) (name @ ''.json'')) = None \<longrightarrow>
      loadPostData E c name w = Inl (SystemError ''ENOENT''))
 \<and> (files w (path_join E (outputsPath c) (name @ ''.json'')) = None \<longrightarrow>
      loadApiResponse E c name w = Inl (SystemError ''ENOENT''))
 \<and> (files w (path_join E (ratesPath c) (name @ ''.json'')) = None \<longrightarrow>
      loadElectricRate E c name w = Inr JNull)"
  by (simp add: loadPostData_def loadApiResponse_def loadElectricRate_def readFileSync_def
      existsSync_def)

theorem load_of_missing_file_witness:
  "loadPostData (sample_env (accepted ''abc-123'') always_running) sample_client ''post_2'' empty_world
     = Inl (SystemError ''ENOENT'')
   \<and> loadApiResponse (sample_env (accepted ''abc-123'') always_running) sample_client ''response_2'' empty_world
     = Inl (SystemError ''ENOENT'')
   \<and> loadElectricRate (sample_env (accepted ''abc-123'') always_running) sample_client ''PGE_E20'' empty_world
     = Inr JNull"
  using load_of_missing_file [of empty_world "sample_env (accepted ''abc-123'') always_running"
      sample_client "''post_2''"]
    load_of_missing_file [of empty_world "sample_env (accepted ''abc-123'') always_running"
      sample_client "''response_2''"]
    load_of_missing_file [of empty_world "sample_env (accepted ''abc-123'') always_running"
      sample_client "''PGE_E20''"]
  by (simp add: empty_world_def)

text \<open>
  Against claim C6 as stated (every category): in a store with no file at all, loading
  the rate \<open>PGE_E20\<close> succeeds with the value \<open>null\<close>.
\<close>

theorem loadElectricRate_null_counterexample:
  "files empty_world (path_join (sample_env (accepted ''abc-123'') always_running)
      (ratesPath sample_client) ''PGE_E20.json'') = None
   \<and> loadElectricRate (sample_env (accepted ''abc-123'') always_running) sample_client
      ''PGE_E20'' empty_world = Inr JNull"
  by (simp add: loadElectricRate_def existsSync_def empty_world_def)

text \<open>
  Claim C7: for a document that JSON can carry (parsing its serialisation gives the
  document back), every name and every world, a save that went through followed by a
  load of the same name returns the document. The two categories that can be saved are
  the submitted inputs (\<open>savePostData\<close>, \<open>loadPostData\<close>) and the raw outputs
  (\<open>saveApiResponse\<close>, \<open>loadApiResponse\<close>).
\<close>

theorem save_then_load:
  assumes "json_parse E (json_stringify E doc) = Inr doc"
  shows "(savePostData E c doc name w = (Inr (), w') \<longrightarrow> loadPostData E c name w' = Inr doc)
       \<and> (saveApiResponse E c doc name w = (Inr (), w') \<longrightarrow> loadApiResponse E c name w' = Inr doc)"
  using assms
  by (auto simp: savePostData_def saveApiResponse_def loadPostData_def loadApiResponse_def
      writeFileSync_def readFileSync_def console_log_def Let_def split: option.splits)

theorem save_then_load_witness:
  "loadPostData (sample_env (accepted ''abc-123'') always_running) sample_client ''post_2''
     (snd (savePostData (sample_env (accepted ''abc-123'') always_running) sample_client
        sample_request ''post_2'' empty_world)) = Inr sample_request
   \<and> loadApiResponse (sample_env (accepted ''abc-123'') always_running) sample_client ''response_2''
     (snd (saveApiResponse (sample_env (accepted ''abc-123'') always_running) sample_client
        sample_request ''response_2'' empty_world)) = Inr sample_request"
proof -
  let ?E = "sample_env (accepted ''abc-123'') always_running"
  have codec: "json_parse ?E (json_stringify ?E sample_request) = Inr sample_request"
    by (simp add: sample_env_def sample_parse_def)
  have s1: "savePostData ?E sample_client sample_request ''post_2'' empty_world
      = (Inr (), snd (savePostData ?E sample_client sample_request ''post_2'' empty_world))"
    by (simp add: savePostData_def writeFileSync_def sample_env_def Let_def)
  have s2: "saveApiResponse ?E sample_client sample_request ''response_2'' empty_world
      = (Inr (), snd (saveApiResponse ?E sample_client sample_request ''response_2'' empty_world))"
    by (simp add: saveApiResponse_def writeFileSync_def sample_env_def Let_def)
  from save_then_load [OF codec, of sample_client "''post_2''" empty_world
      "snd (savePostData ?E sample_client sample_request ''post_2'' empty_world)"] s1
    save_then_load [OF codec, of sample_client "''response_2''" empty_world
      "snd (saveApiResponse ?E sample_client sample_request ''response_2'' empty_world)"] s2
  show ?thesis by blast
qed

section \<open>A summary that throws\<close>

text \<open>
  Claim C9: the summary never fails, whatever is missing or \<open>null\<close> in the result.
  The code does otherwise. On the finished job's document \<open>summary_input\<close>, whose
  \<open>messages.errors\<close> is \<open>null\<close>, \<open>printResultsSummary\<close> prints five lines and
  then throws a TypeError, from \<open>Object.keys(apiResponse.messages.errors)\<close>.
\<close>

theorem printResultsSummary_throws:
  "fst (printResultsSummary (sample_env (accepted ''abc-123'') always_running) summary_input empty_world)
     = Inl (TypeError ''Cannot convert undefined or null to object'')
   \<and> console (snd (printResultsSummary (sample_env (accepted ''abc-123'') always_running)
        summary_input empty_world))
     = [[Txt (CHR 0x0A # ''=== REopt Results Summary ==='')],
        [Txt ''Status: optimal''],
        [Txt ''Run UUID: abc-123''],
        [Txt ''NPV ($): 50000''],
        [Txt ''Capital Cost, Net ($): undefined'']]"
  by (simp add: printResultsSummary_def print_financial_def print_tech_def print_ghp_def
      print_sizes_def print_messages_def print_info_def print_listed_def print_categories_def
      techList_def get_opt_def summary_input_def and_then_def eval_to_def finish_def
      print_log_def console_log_def empty_world_def sample_env_def sample_number_def
      string_of_nat.simps Let_def)

end
